theory Spec2Isabelle
  imports Main
begin

section \<open>Strings of the source language\<close>

text \<open>
  A string of the source is modelled as the list of the bytes of its UTF-8 form. Every
  string operation below looks only at ASCII prefixes (\<open>0x\<close>, the selector) or compares
  whole strings, where bytes and the source's code units agree.
\<close>

definition startsWith :: "string \<Rightarrow> string \<Rightarrow> bool" where
  \<comment> \<open>\<open>s.startsWith(p)\<close>\<close>
  "startsWith s p \<longleftrightarrow> take (length p) s = p"

definition slice :: "string \<Rightarrow> nat \<Rightarrow> string" where
  \<comment> \<open>\<open>s.slice(n)\<close> for a non-negative literal \<open>n\<close>\<close>
  "slice s n = drop n s"

section \<open>Errors\<close>

text \<open>What a call can raise: a TypeError of the language itself (reading a property of
  \<open>undefined\<close> or \<open>null\<close>, calling what is no function), or an Error raised by library
  or accessor code.\<close>

datatype error = TypeError | Error

section \<open>Hexadecimal digits\<close>

definition isHexDigit :: "char \<Rightarrow> bool" where
  \<comment> \<open>\<open>0-9\<close>, \<open>A-F\<close>, \<open>a-f\<close>\<close>
  "isHexDigit c \<longleftrightarrow>
     (let n = (of_char c :: nat)
      in (48 \<le> n \<and> n \<le> 57) \<or> (65 \<le> n \<and> n \<le> 70) \<or> (97 \<le> n \<and> n \<le> 102))"

definition hexDigitValue :: "char \<Rightarrow> nat" where
  "hexDigitValue c =
     (let n = (of_char c :: nat)
      in if n \<le> 57 then n - 48 else if n \<le> 70 then n - 55 else n - 87)"

definition hexChar :: "nat \<Rightarrow> char" where
  \<comment> \<open>the lower-case digit of a value below 16\<close>
  "hexChar d = char_of (if d < 10 then 48 + d else 87 + d)"

text \<open>
  Modelled from the spec: \<open>web3Utils.isHexStrict\<close> and \<open>web3Utils.hexToNumber\<close> belong to
  the library web3-utils, which is not part of the sources. The spec describes strict hex
  as "must start with \<open>0x\<close> and contain only valid hex digits after" and \<open>hexToNumber\<close> as
  the conversion to the numeric value. The result is a number of the language, which
  holds integers exactly only below \<open>2^53\<close>: the conversion raises an Error for a value
  that needs more than 53 bits.
\<close>

definition isHexStrict :: "string \<Rightarrow> bool" where
  \<comment> \<open>Modelled from the spec: \<open>web3Utils.isHexStrict\<close>, which is not in the sources\<close>
  "isHexStrict hex \<longleftrightarrow> startsWith hex ''0x'' \<and> list_all isHexDigit (slice hex 2)"

definition hexValue :: "string \<Rightarrow> nat" where
  \<comment> \<open>the value of the digits after \<open>0x\<close>\<close>
  "hexValue hex = foldl (\<lambda>n c. 16 * n + hexDigitValue c) 0 (slice hex 2)"

definition hexToNumber :: "string \<Rightarrow> error + nat" where
  \<comment> \<open>Modelled from the spec: \<open>web3Utils.hexToNumber\<close>, which is not in the sources, on a
     strict hex string: its value as a number, or an Error when the value does not fit
     53 bits\<close>
  "hexToNumber hex = (if hexValue hex < 2 ^ 53 then Inr (hexValue hex) else Inl Error)"

section \<open>parseBlockNumber\<close>

text \<open>The four kinds of value \<open>parseBlockNumber\<close> returns: \<open>string | number | undefined | null\<close>.
  A \<open>number\<close> it returns is \<open>0\<close> or a result of \<open>hexToNumber\<close>, so below \<open>2^53\<close>.\<close>

datatype block_ref = RetString string | RetNumber nat | RetUndefined | RetNull

definition parseBlockNumber :: "string \<Rightarrow> error + block_ref" where
  \<comment> \<open>\<open>Inl\<close> when the call raises\<close>
  "parseBlockNumber input =
     (if isHexStrict input \<and> length input = 66 then Inr (RetString input)
      else if isHexStrict input
      then (case hexToNumber input of Inl e \<Rightarrow> Inl e | Inr n \<Rightarrow> Inr (RetNumber n))
      else if input = ''earliest'' then Inr (RetNumber 0)
      else if input = ''latest'' then Inr RetUndefined
      else Inr RetNull)"

section \<open>The ABI codec for a string parameter\<close>

text \<open>
  Modelled from the spec: \<open>abi.encodeParameter\<close> and \<open>abi.decodeParameter\<close> belong to the
  library thor-devkit, which is not part of the sources. The spec gives their shape
  (\<open>encodeParameter(type, value) -> hex string\<close>, \<open>decodeParameter(type, hex) -> value\<close>,
  used only for the type \<open>string\<close>). They are modelled as the contract ABI encoding of one
  dynamic \<open>string\<close>: a 32-byte offset word (32), a 32-byte length word, the bytes of the
  string, zero padding up to a multiple of 32 bytes; the whole written as \<open>0x\<close> followed
  by two lower-case hex digits per byte. Decoding raises (here: \<open>None\<close>) when the input
  is not \<open>0x\<close> followed by pairs of hex digits or when a word or the payload lies beyond
  the end of the data.
\<close>

definition hexByte :: "char \<Rightarrow> string" where
  "hexByte b = [hexChar ((of_char b :: nat) div 16), hexChar ((of_char b :: nat) mod 16)]"

definition toHexString :: "string \<Rightarrow> string" where
  \<comment> \<open>two hex digits per byte, without prefix (\<open>Buffer.toString('hex')\<close>)\<close>
  "toHexString bs = concat (map hexByte bs)"

definition hexlify :: "string \<Rightarrow> string" where
  "hexlify bs = ''0x'' @ toHexString bs"

fun unhex :: "string \<Rightarrow> string option" where
  "unhex [] = Some []"
| "unhex [c] = None"
| "unhex (a # b # cs) =
     (if isHexDigit a \<and> isHexDigit b
      then map_option ((#) (char_of (16 * hexDigitValue a + hexDigitValue b))) (unhex cs)
      else None)"

definition arrayify :: "string \<Rightarrow> string option" where
  "arrayify h = (if startsWith h ''0x'' then unhex (slice h 2) else None)"

fun numberBytes :: "nat \<Rightarrow> nat \<Rightarrow> string" where
  \<comment> \<open>the \<open>k\<close> low bytes of a number, most significant first\<close>
  "numberBytes 0 n = []"
| "numberBytes (Suc k) n = numberBytes k (n div 256) @ [char_of (n mod 256)]"

definition bytesNumber :: "string \<Rightarrow> nat" where
  "bytesNumber bs = foldl (\<lambda>n b. 256 * n + of_char b) 0 bs"

definition uint256 :: "nat \<Rightarrow> string" where
  "uint256 n = numberBytes 32 n"

definition encodeParameter :: "string \<Rightarrow> string" where
  \<comment> \<open>Modelled from the spec: \<open>abi.encodeParameter('string', s)\<close>, which is not in the
     sources\<close>
  "encodeParameter s =
     hexlify (uint256 32 @ uint256 (length s) @ s
              @ replicate ((32 - length s mod 32) mod 32) (char_of (0 :: nat)))"

definition decodeParameter :: "string \<Rightarrow> string option" where
  \<comment> \<open>Modelled from the spec: \<open>abi.decodeParameter('string', h)\<close>, which is not in the
     sources; \<open>None\<close> when it raises\<close>
  "decodeParameter h =
     (case arrayify h of
        None \<Rightarrow> None
      | Some bs \<Rightarrow>
          if length bs < 32 then None
          else let off = bytesNumber (take 32 bs)
               in if length bs < off + 32 then None
                  else let n = bytesNumber (take 32 (drop off bs))
                       in if length bs < off + 32 + n then None
                          else Some (take n (drop (off + 32) bs)))"

section \<open>Revert reasons\<close>

definition errorSig :: string where
  \<comment> \<open>the selector of \<open>Error(string)\<close>\<close>
  "errorSig = ''0x08c379a0''"

definition decodeRevertReason :: "string \<Rightarrow> string" where
  \<comment> \<open>the \<open>catch\<close> turns a raising \<open>decodeParameter\<close> into the empty string\<close>
  "decodeRevertReason dat =
     (if startsWith dat errorSig
      then (case decodeParameter (''0x'' @ slice dat (length errorSig)) of
              Some s \<Rightarrow> s
            | None \<Rightarrow> [])
      else [])"

text \<open>
  \<open>Connex.VM.Output\<close>, with the fields the module reads and writes. \<open>vmError\<close> and
  \<open>revertReason\<close> may be \<open>undefined\<close> (\<open>None\<close>). Any further field of the object lives
  in the record's extension.
\<close>

record Output =
  data :: string
  vmError :: "string option"
  revertReason :: "string option"

definition orElse :: "string option \<Rightarrow> string option \<Rightarrow> string option" where
  \<comment> \<open>\<open>a || b\<close> on operands that are a string or \<open>undefined\<close>: both \<open>undefined\<close> and the
     empty string are falsy\<close>
  "orElse a b = (case a of Some (c # cs) \<Rightarrow> a | _ \<Rightarrow> b)"

definition orElseString :: "string option \<Rightarrow> string \<Rightarrow> string" where
  \<comment> \<open>\<open>a || b\<close> whose last operand is a string\<close>
  "orElseString a b = (case a of Some (c # cs) \<Rightarrow> c # cs | _ \<Rightarrow> b)"

definition genRevertReason :: "'a Output_scheme \<Rightarrow> 'a Output_scheme \<times> string" where
  \<comment> \<open>returns the mutated \<open>output\<close> object together with the returned string\<close>
  "genRevertReason output =
     (let output' = output\<lparr>revertReason := Some (decodeRevertReason (data output))\<rparr>;
          errMsg = orElseString (orElse (revertReason output') (vmError output')) (data output');
          errMsg = (if \<not> startsWith errMsg ''0x'' then encodeParameter errMsg else errMsg);
          errMsg = (if \<not> startsWith errMsg errorSig then errorSig @ slice errMsg 2 else errMsg)
      in (output', errMsg))"

section \<open>Values of unknown type and getErrMsg\<close>

text \<open>
  A value of type \<open>any\<close>: the primitive values, arrays and objects (a list of named
  fields; the first binding of a name is the field). Reading a field of an object gives
  a value (\<open>Inr\<close>: a data field, or an accessor that returns this value) or raises
  (\<open>Inl\<close>: an accessor or proxy trap that throws). Numbers are integers here.
\<close>

datatype jsval =
    JUndefined
  | JNull
  | JBool bool
  | JNum int
  | JStr string
  | JArr "jsval list"
  | JObj "(string \<times> (error + jsval)) list"

fun truthy :: "jsval \<Rightarrow> bool" where
  "truthy JUndefined = False"
| "truthy JNull = False"
| "truthy (JBool b) = b"
| "truthy (JNum n) = (n \<noteq> 0)"
| "truthy (JStr s) = (s \<noteq> [])"
| "truthy (JArr xs) = True"
| "truthy (JObj fs) = True"

fun getProperty :: "jsval \<Rightarrow> string \<Rightarrow> error + jsval" where
  \<comment> \<open>\<open>v.name\<close> for a name that is no built-in member of strings, numbers, booleans and
     arrays (\<open>message\<close>, \<open>hash\<close>): reading it from \<open>undefined\<close> or \<open>null\<close> raises a
     TypeError, reading a throwing accessor raises what it throws, a value without the
     field gives \<open>undefined\<close>\<close>
  "getProperty JUndefined name = Inl TypeError"
| "getProperty JNull name = Inl TypeError"
| "getProperty (JObj fs) name =
     (case map_of fs name of Some (Inl e) \<Rightarrow> Inl e | Some (Inr v) \<Rightarrow> Inr v | None \<Rightarrow> Inr JUndefined)"
| "getProperty v name = Inr JUndefined"


section \<open>toFilterCriteria\<close>

text \<open>
  The values a \<open>FilterOpts\<close> holds: \<open>address?: string | string[]\<close> and
  \<open>topics?: (string | string[])[]\<close>, so a value is \<open>undefined\<close>, a string or an array.
\<close>

datatype fval = FUndefined | FStr string | FArr "fval list"

fun truthyF :: "fval \<Rightarrow> bool" where
  "truthyF FUndefined = False"
| "truthyF (FStr s) = (s \<noteq> [])"
| "truthyF (FArr xs) = True"

fun isArray :: "fval \<Rightarrow> bool" where
  "isArray (FArr xs) = True"
| "isArray v = False"

fun index :: "fval \<Rightarrow> nat \<Rightarrow> error + fval" where
  \<comment> \<open>\<open>v[i]\<close>: raises on \<open>undefined\<close>, gives \<open>undefined\<close> out of range, and the one-character
     string at position \<open>i\<close> of a string\<close>
  "index FUndefined i = Inl TypeError"
| "index (FStr s) i = Inr (if i < length s then FStr [s ! i] else FUndefined)"
| "index (FArr xs) i = Inr (if i < length xs then xs ! i else FUndefined)"

fun lengthOf :: "fval \<Rightarrow> error + nat" where
  \<comment> \<open>\<open>v.length\<close>\<close>
  "lengthOf FUndefined = Inl TypeError"
| "lengthOf (FStr s) = Inr (length s)"
| "lengthOf (FArr xs) = Inr (length xs)"

definition bindE :: "error + 'a \<Rightarrow> ('a \<Rightarrow> error + 'b) \<Rightarrow> error + 'b" where
  \<comment> \<open>sequencing: a raised error ends the computation\<close>
  "bindE m f = (case m of Inl e \<Rightarrow> Inl e | Inr x \<Rightarrow> f x)"

text \<open>A criteria object \<open>{ address?, topic0?, topic1?, topic2?, topic3? }\<close>: only the
  fields that were assigned are present.\<close>

type_synonym Criteria = "string \<rightharpoonup> fval"

definition setTopic :: "string \<Rightarrow> fval \<Rightarrow> nat \<Rightarrow> Criteria \<Rightarrow> error + Criteria" where
  \<comment> \<open>\<open>if (topics[k]) { c.topick = topics[k]; }\<close>\<close>
  "setTopic key topics k c =
     bindE (index topics k) (\<lambda>t. Inr (if truthyF t then c(key \<mapsto> t) else c))"

definition setCriteria :: "fval \<Rightarrow> fval \<Rightarrow> error + Criteria" where
  "setCriteria address topics =
     (let c = Map.empty;
          c = (if truthyF address then c(''address'' \<mapsto> address) else c)
      in if truthyF topics
         then bindE (setTopic ''topic0'' topics 0 c) (\<lambda>c.
              bindE (setTopic ''topic1'' topics 1 c) (\<lambda>c.
              bindE (setTopic ''topic2'' topics 2 c) (\<lambda>c.
              setTopic ''topic3'' topics 3 c)))
         else Inr c)"

record FilterOpts =
  address :: fval
  topics :: fval

definition iteration :: "FilterOpts \<Rightarrow> nat \<Rightarrow> error + Criteria" where
  \<comment> \<open>the body of the \<open>for\<close> loop at index \<open>i\<close>: the criteria object it pushes\<close>
  "iteration args i =
     bindE (if truthyF (address args)
            then (if isArray (address args) then index (address args) i
                  else Inr (address args))
            else Inr FUndefined) (\<lambda>addr.
     bindE (if truthyF (topics args) then index (topics args) i else Inr FUndefined) (\<lambda>topics.
     setCriteria addr topics))"

function forLoop :: "FilterOpts \<Rightarrow> nat \<Rightarrow> nat \<Rightarrow> Criteria list \<Rightarrow> error + Criteria list" where
  \<comment> \<open>\<open>for (let i = ...; i < len; i++) { ...; ret.push(...) }\<close>, started at \<open>i\<close> with \<open>ret\<close>\<close>
  "forLoop args len i ret =
     (if i < len
      then (case iteration args i of
              Inl e \<Rightarrow> Inl e
            | Inr c \<Rightarrow> forLoop args len (Suc i) (ret @ [c]))
      else Inr ret)"
  by pat_completeness auto
termination
  by (relation "measure (\<lambda>(args, len, i, ret). len - i)") auto

definition toFilterCriteria :: "FilterOpts \<Rightarrow> error + Criteria list" where
  "toFilterCriteria args =
     bindE (if \<not> (truthyF (address args) \<and> isArray (address args))
            then (if truthyF (topics args)
                  then bindE (index (topics args) 0) (\<lambda>t0. Inr (\<not> (truthyF t0 \<and> isArray t0)))
                  else Inr True)
            else Inr False) (\<lambda>scalar.
     if scalar
     then bindE (setCriteria (address args) (topics args)) (\<lambda>c. Inr [c])
     else if isArray (address args) \<or> isArray (topics args)
     then bindE (if truthyF (address args) then lengthOf (address args) else Inr 0) (\<lambda>len.
          bindE (if truthyF (topics args) then lengthOf (topics args) else Inr len) (\<lambda>len.
          forLoop args len 0 []))
     else Inr [])"

section \<open>signTransaction\<close>

text \<open>
  The transaction intent \<open>TxObj = { to?, value?, data?, gas? }\<close>. \<open>to\<close>, \<open>value\<close> and
  \<open>data\<close> are strings or \<open>undefined\<close> (\<open>None\<close>); \<open>gas\<close> flows into the transaction body
  next to the provider's answer, whose type is \<open>any\<close>.
\<close>

record TxObj =
  tx_to :: "string option"
  tx_value :: "string option"
  tx_data :: "string option"
  tx_gas :: jsval

datatype param = TxParam TxObj | StrParam string

record RequestArguments =
  rpc_method :: string
  rpc_params :: "param list"

text \<open>
  The injected collaborators. A provider answers a request with a value (\<open>Inr\<close>) or
  rejects it with a reason (\<open>Inl\<close>); a signer does the same for a digest. The
  transaction codec of thor-devkit (\<open>signingHash\<close>, \<open>encode\<close>) and the bytes drawn by
  \<open>randomBytes(8)\<close> are not part of the sources and are parameters.
\<close>

record Provider =
  provider_chainTag :: nat
  provider_request :: "RequestArguments \<Rightarrow> jsval + jsval"

type_synonym signer = "string \<Rightarrow> jsval + string"

record Wallet =
  list :: "signer list"

record Clause =
  clause_to :: "string option"
  clause_value :: string
  clause_data :: string

record Body =
  chainTag :: nat
  blockRef :: jsval
  expiration :: nat
  clauses :: "Clause list"
  gasPriceCoef :: nat
  gas :: jsval
  dependsOn :: "string option"
  nonce :: string

record TransactionCodec =
  signingHash :: "Body \<Rightarrow> jsval + string"
  encode :: "Body \<Rightarrow> string \<Rightarrow> jsval + string"

text \<open>How a promise is rejected: with a reason value, or by an error raised on the way.\<close>

datatype rejection = Reason jsval | Thrown error

definition txParams_expiration :: nat where
  "txParams_expiration = 18"

definition txParams_gasPriceCoef :: nat where
  "txParams_gasPriceCoef = 0"

definition toLowerCase :: "string \<Rightarrow> string" where
  \<comment> \<open>on ASCII letters; other bytes are kept\<close>
  "toLowerCase s =
     map (\<lambda>c. let n = (of_char c :: nat) in if 65 \<le> n \<and> n \<le> 90 then char_of (n + 32) else c) s"

definition txClauses :: "TxObj \<Rightarrow> Clause list" where
  \<comment> \<open>the constant \<open>clauses\<close>; \<open>null\<close> is \<open>None\<close>\<close>
  "txClauses ethTx =
     [\<lparr>clause_to = (case tx_to ethTx of Some (c # cs) \<Rightarrow> Some (toLowerCase (c # cs)) | _ \<Rightarrow> None),
       clause_value = orElseString (tx_value ethTx) ''0x0'',
       clause_data = orElseString (tx_data ethTx) ''0x''\<rparr>]"

fun slice_0_18 :: "jsval \<Rightarrow> error + jsval" where
  \<comment> \<open>\<open>v.slice(0, 18)\<close>: strings and arrays have the method, calling it on anything else
     raises a TypeError\<close>
  "slice_0_18 (JStr s) = Inr (JStr (take 18 s))"
| "slice_0_18 (JArr xs) = Inr (JArr (take 18 xs))"
| "slice_0_18 v = Inl TypeError"

definition estimateGasRequest :: "TxObj \<Rightarrow> RequestArguments" where
  "estimateGasRequest ethTx = \<lparr>rpc_method = ''eth_estimateGas'', rpc_params = [TxParam ethTx]\<rparr>"

definition getBlockRequest :: RequestArguments where
  "getBlockRequest = \<lparr>rpc_method = ''eth_getBlockByNumber'', rpc_params = [StrParam ''latest'']\<rparr>"

definition txBody :: "nat \<Rightarrow> jsval \<Rightarrow> Clause list \<Rightarrow> jsval \<Rightarrow> string \<Rightarrow> Body" where
  \<comment> \<open>the constant \<open>txBody\<close>, from the chain tag, the block reference, the clauses, the gas
     and the random bytes\<close>
  "txBody chainId ref cls g rnd =
     \<lparr>chainTag = chainId, blockRef = ref, expiration = txParams_expiration, clauses = cls,
      gasPriceCoef = txParams_gasPriceCoef, gas = g, dependsOn = None,
      nonce = ''0x'' @ toHexString rnd\<rparr>"

definition signWithGas ::
  "TransactionCodec \<Rightarrow> string \<Rightarrow> TxObj \<Rightarrow> Wallet \<Rightarrow> Provider \<Rightarrow> jsval
     \<Rightarrow> RequestArguments list \<Rightarrow> RequestArguments list \<times> (rejection + string)" where
  \<comment> \<open>the part of \<open>signTransaction\<close> after \<open>gas\<close> is resolved; \<open>log\<close> holds the requests
     issued so far, and the result pairs the requests issued with the promise's outcome\<close>
  "signWithGas tc rnd ethTx wallet provider g log =
     (let chainId = provider_chainTag provider;
          log = log @ [getBlockRequest]
      in case provider_request provider getBlockRequest of
           Inl r \<Rightarrow> (log, Inl (Reason r))
         | Inr best \<Rightarrow>
             (log,
              case bindE (getProperty best ''hash'') slice_0_18 of
                Inl e \<Rightarrow> Inl (Thrown e)
              | Inr ref \<Rightarrow>
                  (let body = txBody chainId ref (txClauses ethTx) g rnd
                   in case list wallet of
                        [] \<Rightarrow> Inl (Thrown TypeError)
                      | signer0 # _ \<Rightarrow>
                          (case signingHash tc body of
                             Inl v \<Rightarrow> Inl (Reason v)
                           | Inr h \<Rightarrow>
                               (case signer0 h of
                                  Inl v \<Rightarrow> Inl (Reason v)
                                | Inr sg \<Rightarrow>
                                    (case encode tc body sg of
                                       Inl v \<Rightarrow> Inl (Reason v)
                                     | Inr raw \<Rightarrow> Inr (''0x'' @ toHexString raw)))))))"

definition signTransaction ::
  "TransactionCodec \<Rightarrow> string \<Rightarrow> TxObj \<Rightarrow> Wallet \<Rightarrow> Provider
     \<Rightarrow> RequestArguments list \<times> (rejection + string)" where
  "signTransaction tc rnd ethTx wallet provider =
     (if length (list wallet) = 0 then ([], Inl (Reason (JStr ''Empty wallet'')))
      else if truthy (tx_gas ethTx)
      then signWithGas tc rnd ethTx wallet provider (tx_gas ethTx) []
      else (case provider_request provider (estimateGasRequest ethTx) of
              Inl r \<Rightarrow> ([estimateGasRequest ethTx], Inl (Reason r))
            | Inr g \<Rightarrow> signWithGas tc rnd ethTx wallet provider g [estimateGasRequest ethTx]))"

section \<open>Sample collaborators\<close>

text \<open>
  A provider that answers \<open>eth_estimateGas\<close> with \<open>0x5208\<close> and every other request
  with a block object, a codec whose encoding shows the gas it was given, a wallet with
  one signer, and a transaction object with a given \<open>gas\<close>. They serve as the concrete
  inputs of the examples below.
\<close>

definition sampleProvider :: Provider where
  "sampleProvider =
     \<lparr>provider_chainTag = 39,
      provider_request = (\<lambda>r.
        if rpc_method r = ''eth_estimateGas'' then Inr (JStr ''0x5208'')
        else Inr (JObj [(''hash'',
               Inr (JStr ''0x00000001c458949985a6d86b7139690b8811dd3b4647c02d4f41cdefb7d32327''))]))\<rparr>"

definition sampleCodec :: TransactionCodec where
  "sampleCodec =
     \<lparr>signingHash = (\<lambda>body. Inr ''digest''),
      encode = (\<lambda>body sg. Inr ((case gas body of JStr g \<Rightarrow> g | _ \<Rightarrow> []) @ sg))\<rparr>"

definition sampleWallet :: Wallet where
  "sampleWallet = \<lparr>list = [\<lambda>h. Inr (''signed '' @ h)]\<rparr>"

definition sampleTx :: "jsval \<Rightarrow> TxObj" where
  "sampleTx g = \<lparr>tx_to = Some ''0xAB'', tx_value = None, tx_data = None, tx_gas = g\<rparr>"

section \<open>Properties of parseBlockNumber\<close>

lemma not_hex_keywords: "\<not> isHexStrict ''earliest''" "\<not> isHexStrict ''latest''"
  by (simp_all add: isHexStrict_def startsWith_def)

lemma parseBlockNumber_number_range:
  "parseBlockNumber input = Inr (RetNumber n) \<Longrightarrow> n < 2 ^ 53"
  by (auto simp: parseBlockNumber_def hexToNumber_def split: if_splits)

text \<open>
  C1, as amended: \<open>parseBlockNumber\<close> maps every input, other than a strictly-formed
  hex string of a length other than 66 whose value is \<open>2^53\<close> or more, to exactly one of
  its results. A strictly-formed hex string of exactly 66 characters is returned
  unchanged; a strictly-formed hex string of any other length whose value is below
  \<open>2^53\<close> gives its numeric value; the string \<open>earliest\<close> gives 0; the string \<open>latest\<close>
  gives \<open>undefined\<close>; every other string that is not strictly-formed hex gives \<open>null\<close>.
  The conditions exclude each other, since neither keyword is strict hex.
\<close>

theorem parseBlockNumber_cases:
  "(isHexStrict input \<and> length input = 66 \<longrightarrow>
      parseBlockNumber input = Inr (RetString input)) \<and>
   (isHexStrict input \<and> length input \<noteq> 66 \<and> hexValue input < 2 ^ 53 \<longrightarrow>
      parseBlockNumber input = Inr (RetNumber (hexValue input))) \<and>
   parseBlockNumber ''earliest'' = Inr (RetNumber 0) \<and>
   parseBlockNumber ''latest'' = Inr RetUndefined \<and>
   (\<not> isHexStrict input \<and> input \<noteq> ''earliest'' \<and> input \<noteq> ''latest'' \<longrightarrow>
      parseBlockNumber input = Inr RetNull)"
  by (simp add: parseBlockNumber_def hexToNumber_def not_hex_keywords)

theorem parseBlockNumber_cases_witness:
  "parseBlockNumber ''0x00000000000000000000000000000000000000000000000000000000000000ff''
     = Inr (RetString ''0x00000000000000000000000000000000000000000000000000000000000000ff'') \<and>
   parseBlockNumber ''0x1f'' = Inr (RetNumber 31) \<and>
   parseBlockNumber ''0x1fffffffffffff'' = Inr (RetNumber (2 ^ 53 - 1)) \<and>
   parseBlockNumber ''foo'' = Inr RetNull"
proof -
  have a: "isHexStrict ''0x00000000000000000000000000000000000000000000000000000000000000ff''"
    by (simp add: isHexStrict_def startsWith_def slice_def isHexDigit_def)
  have b: "isHexStrict ''0x1f'' \<and> hexValue ''0x1f'' = 31"
    by (simp add: isHexStrict_def startsWith_def slice_def isHexDigit_def hexValue_def
        hexDigitValue_def)
  have c: "isHexStrict ''0x1fffffffffffff'' \<and> hexValue ''0x1fffffffffffff'' = 2 ^ 53 - 1"
    by (simp add: isHexStrict_def startsWith_def slice_def isHexDigit_def hexValue_def
        hexDigitValue_def)
  have d: "\<not> isHexStrict ''foo''"
    by (simp add: isHexStrict_def startsWith_def)
  show ?thesis
    using a b c d
      parseBlockNumber_cases
        [of "''0x00000000000000000000000000000000000000000000000000000000000000ff''"]
      parseBlockNumber_cases [of "''0x1f''"]
      parseBlockNumber_cases [of "''0x1fffffffffffff''"]
      parseBlockNumber_cases [of "''foo''"]
    by simp
qed

text \<open>
  C1, as stated, fails: \<open>0x20000000000001\<close> is strictly-formed hex of 16 characters with
  the value \<open>2^53 + 1\<close>, which no number of the language holds; the conversion raises,
  and \<open>parseBlockNumber\<close> returns none of the four results.
\<close>

theorem parseBlockNumber_counterexample:
  "isHexStrict ''0x20000000000001'' \<and> length ''0x20000000000001'' \<noteq> 66 \<and>
   parseBlockNumber ''0x20000000000001'' = Inl Error"
  by (simp add: parseBlockNumber_def hexToNumber_def hexValue_def isHexStrict_def
      startsWith_def slice_def isHexDigit_def hexDigitValue_def)

section \<open>The codec decodes what it encodes\<close>

lemma hexChar_isHexDigit: "d < 16 \<Longrightarrow> isHexDigit (hexChar d)"
  by (simp add: isHexDigit_def hexChar_def)

lemma hexDigitValue_hexChar: "d < 16 \<Longrightarrow> hexDigitValue (hexChar d) = d"
  by (simp add: hexDigitValue_def hexChar_def)

lemma unhex_hexByte: "unhex (hexByte b @ cs) = map_option ((#) b) (unhex cs)"
proof -
  let ?n = "of_char b :: nat"
  have "?n < 256"
    by (rule nat_of_char_less_256)
  then have lt: "?n div 16 < 16" "?n mod 16 < 16"
    by arith+
  have "char_of (16 * (?n div 16) + ?n mod 16) = b"
    by simp
  with lt show ?thesis
    by (simp add: hexByte_def hexChar_isHexDigit hexDigitValue_hexChar)
qed

lemma unhex_toHexString: "unhex (toHexString bs) = Some bs"
proof (induction bs)
  case Nil
  show ?case by (simp add: toHexString_def)
next
  case (Cons b bs)
  have "toHexString (b # bs) = hexByte b @ toHexString bs"
    by (simp add: toHexString_def)
  with Cons show ?case
    by (simp add: unhex_hexByte)
qed

lemma arrayify_hexlify: "arrayify (hexlify bs) = Some bs"
  by (simp add: arrayify_def hexlify_def startsWith_def slice_def unhex_toHexString)

lemma length_numberBytes: "length (numberBytes k n) = k"
  by (induction k arbitrary: n) simp_all

lemma bytesNumber_snoc: "bytesNumber (bs @ [b]) = 256 * bytesNumber bs + of_char b"
  by (simp add: bytesNumber_def)

lemma bytesNumber_numberBytes: "bytesNumber (numberBytes k n) = n mod 256 ^ k"
proof (induction k arbitrary: n)
  case 0
  show ?case by (simp add: bytesNumber_def)
next
  case (Suc k)
  have "bytesNumber (numberBytes (Suc k) n) = 256 * (n div 256 mod 256 ^ k) + n mod 256"
    by (simp add: bytesNumber_snoc Suc)
  also have "\<dots> = n mod 256 ^ Suc k"
    by (simp add: mod_mult2_eq)
  finally show ?case .
qed

lemma bytesNumber_uint256: "n < 2 ^ 256 \<Longrightarrow> bytesNumber (uint256 n) = n"
proof -
  assume "n < 2 ^ 256"
  moreover have "(256 :: nat) ^ 32 = 2 ^ 256" by simp
  ultimately show ?thesis
    by (simp add: uint256_def bytesNumber_numberBytes)
qed

lemma decodeParameter_encodeParameter:
  assumes "length s < 2 ^ 256"
  shows "decodeParameter (encodeParameter s) = Some s"
proof -
  define pad where "pad = replicate ((32 - length s mod 32) mod 32) (char_of (0 :: nat))"
  define bs where "bs = uint256 32 @ uint256 (length s) @ s @ pad"
  have len: "length (uint256 n) = 32" for n
    by (simp add: uint256_def length_numberBytes)
  have enc: "encodeParameter s = hexlify bs"
    by (simp add: encodeParameter_def bs_def pad_def)
  have off: "bytesNumber (take 32 bs) = 32"
    by (simp add: bs_def len bytesNumber_uint256)
  have n: "bytesNumber (take 32 (drop 32 bs)) = length s"
    using assms by (simp add: bs_def len bytesNumber_uint256)
  have val: "take (length s) (drop 64 bs) = s"
    by (simp add: bs_def len)
  have "length bs = 64 + length s + length pad"
    by (simp add: bs_def len)
  then show ?thesis
    by (simp add: enc decodeParameter_def arrayify_hexlify off n val)
qed

section \<open>Properties of decodeRevertReason\<close>

text \<open>
  C2, as amended: for every string \<open>s\<close> (of fewer than \<open>2^256\<close> bytes, the range of the
  length word), \<open>decodeRevertReason\<close> applied to the selector followed by
  \<open>encodeParameter('string', s)\<close> without its leading \<open>0x\<close> returns exactly \<open>s\<close>. This is
  the string \<open>genRevertReason\<close> builds with \<open>errorSig + errMsg.slice(2)\<close>.
\<close>

theorem decodeRevertReason_roundtrip:
  assumes "length s < 2 ^ 256"
  shows "decodeRevertReason (errorSig @ slice (encodeParameter s) 2) = s"
proof -
  have "''0x'' @ slice (encodeParameter s) 2 = encodeParameter s"
    by (simp add: encodeParameter_def hexlify_def slice_def)
  then show ?thesis
    using decodeParameter_encodeParameter [OF assms]
    by (simp add: decodeRevertReason_def startsWith_def slice_def errorSig_def)
qed

theorem decodeRevertReason_roundtrip_witness:
  "length ''out of gas'' < 2 ^ 256 \<and>
   decodeRevertReason (errorSig @ slice (encodeParameter ''out of gas'') 2) = ''out of gas''"
  using decodeRevertReason_roundtrip [of "''out of gas''"] by simp

text \<open>
  C2, as stated, fails: the plain concatenation of the selector and
  \<open>encodeParameter('string', s)\<close> keeps the encoder's own \<open>0x\<close> in the middle, so what
  is handed to the decoder starts with \<open>0x0x\<close>, decoding raises and the result is the
  empty string.
\<close>

theorem decodeRevertReason_roundtrip_counterexample:
  "decodeRevertReason (errorSig @ encodeParameter ''a'') \<noteq> ''a''"
  by code_simp

text \<open>
  C7: \<open>decodeRevertReason\<close> is total. When the input does not start with the selector
  \<open>0x08c379a0\<close>, or decoding the bytes after the selector raises, the result is the empty
  string; otherwise it is the decoded string.
\<close>

theorem decodeRevertReason_total:
  "(\<not> startsWith dat errorSig \<longrightarrow> decodeRevertReason dat = []) \<and>
   (startsWith dat errorSig \<and> decodeParameter (''0x'' @ slice dat 10) = None \<longrightarrow>
      decodeRevertReason dat = []) \<and>
   (\<forall>s. startsWith dat errorSig \<and> decodeParameter (''0x'' @ slice dat 10) = Some s \<longrightarrow>
      decodeRevertReason dat = s)"
proof -
  have "length errorSig = 10"
    by (simp add: errorSig_def)
  then show ?thesis
    by (simp add: decodeRevertReason_def)
qed

theorem decodeRevertReason_total_witness:
  "decodeRevertReason ''0x12345678'' = [] \<and>
   decodeRevertReason ''0x08c379a000'' = [] \<and>
   decodeRevertReason
     (''0x08c379a0''
      @ ''0000000000000000000000000000000000000000000000000000000000000020''
      @ ''0000000000000000000000000000000000000000000000000000000000000002''
      @ ''6f6b000000000000000000000000000000000000000000000000000000000000'') = ''ok''"
proof -
  let ?ok = "''0x08c379a0''
      @ ''0000000000000000000000000000000000000000000000000000000000000020''
      @ ''0000000000000000000000000000000000000000000000000000000000000002''
      @ ''6f6b000000000000000000000000000000000000000000000000000000000000''"
  have a: "\<not> startsWith ''0x12345678'' errorSig"
    by (simp add: startsWith_def errorSig_def)
  have b: "startsWith ''0x08c379a000'' errorSig \<and>
           decodeParameter (''0x'' @ slice ''0x08c379a000'' 10) = None"
    by code_simp
  have c: "startsWith ?ok errorSig \<and> decodeParameter (''0x'' @ slice ?ok 10) = Some ''ok''"
    by code_simp
  show ?thesis
    using a b c decodeRevertReason_total [of "''0x12345678''"]
      decodeRevertReason_total [of "''0x08c379a000''"]
      decodeRevertReason_total [of ?ok]
    by blast
qed

section \<open>Properties of genRevertReason\<close>

lemma startsWith_append: "startsWith (p @ s) p"
  by (simp add: startsWith_def)

text \<open>
  C6: for every VM output, \<open>genRevertReason\<close> takes as \<open>errMsg\<close> the decoded revert reason
  if it is non-empty, else \<open>vmError\<close> if it is non-empty, else the raw \<open>data\<close>; ABI-encodes
  it as a string when it does not start with \<open>0x\<close>; puts the selector in place of the
  leading \<open>0x\<close> when it does not already start with the selector; and the returned string
  always starts with the selector.
\<close>

theorem genRevertReason_result:
  "(let r = decodeRevertReason (data output);
        errMsg = (if r \<noteq> [] then r
                  else (case vmError output of Some (c # cs) \<Rightarrow> c # cs | _ \<Rightarrow> data output));
        hex = (if startsWith errMsg ''0x'' then errMsg else encodeParameter errMsg);
        res = (if startsWith hex errorSig then hex else errorSig @ slice hex 2)
    in snd (genRevertReason output) = res)
   \<and> startsWith (snd (genRevertReason output)) errorSig"
proof -
  have sel: "orElseString (orElse (Some r) v) d =
      (if r \<noteq> [] then r else (case v of Some (c # cs) \<Rightarrow> c # cs | _ \<Rightarrow> d))" for r v d
    by (simp add: orElseString_def orElse_def split: option.splits list.splits)
  show ?thesis
    by (simp add: genRevertReason_def Let_def sel startsWith_append)
qed

theorem genRevertReason_result_witness:
  "snd (genRevertReason \<lparr>data = ''0x'', vmError = Some ''out of gas'', revertReason = None\<rparr>) =
     ''0x08c379a0''
      @ ''0000000000000000000000000000000000000000000000000000000000000020''
      @ ''000000000000000000000000000000000000000000000000000000000000000a''
      @ ''6f7574206f662067617300000000000000000000000000000000000000000000''"
proof -
  have r: "decodeRevertReason ''0x'' = []"
    by (simp add: decodeRevertReason_def startsWith_def errorSig_def)
  have e: "encodeParameter ''out of gas'' = ''0x''
      @ ''0000000000000000000000000000000000000000000000000000000000000020''
      @ ''000000000000000000000000000000000000000000000000000000000000000a''
      @ ''6f7574206f662067617300000000000000000000000000000000000000000000''"
    by code_simp
  show ?thesis
    using genRevertReason_result
      [of "\<lparr>data = ''0x'', vmError = Some ''out of gas'', revertReason = None\<rparr>"]
    by (simp add: Let_def r e startsWith_def slice_def errorSig_def)
qed

text \<open>
  C10: \<open>genRevertReason\<close> changes only the field \<open>revertReason\<close> of the output object it is
  given, setting it to \<open>decodeRevertReason(output.data)\<close>; \<open>data\<close>, \<open>vmError\<close> and every
  other field are the same after the call.
\<close>

theorem genRevertReason_frame:
  "fst (genRevertReason output) =
     output\<lparr>revertReason := Some (decodeRevertReason (data output))\<rparr>
   \<and> data (fst (genRevertReason output)) = data output
   \<and> vmError (fst (genRevertReason output)) = vmError output
   \<and> Output.more (fst (genRevertReason output)) = Output.more output"
  by (simp add: genRevertReason_def Let_def)

theorem genRevertReason_frame_witness:
  "fst (genRevertReason \<lparr>data = ''0x'', vmError = Some ''out of gas'', revertReason = None\<rparr>) =
     \<lparr>data = ''0x'', vmError = Some ''out of gas'', revertReason = Some []\<rparr>"
proof -
  have r: "decodeRevertReason ''0x'' = []"
    by (simp add: decodeRevertReason_def startsWith_def errorSig_def)
  show ?thesis
    using genRevertReason_frame
      [of "\<lparr>data = ''0x'', vmError = Some ''out of gas'', revertReason = None\<rparr>"]
    by (simp add: r)
qed

section \<open>Properties of getErrMsg\<close>




section \<open>Properties of toFilterCriteria\<close>

lemma bindE_Inr: "bindE (Inr x) f = f x"
  by (simp add: bindE_def)

lemma index_truthy: "truthyF v \<Longrightarrow> \<exists>x. index v i = Inr x"
  by (cases v) simp_all

lemma setTopic_ok: "truthyF ts \<Longrightarrow> \<exists>c'. setTopic key ts k c = Inr c'"
  using index_truthy [of ts k] by (auto simp: setTopic_def bindE_def)

lemma setCriteria_ok: "\<exists>c. setCriteria a ts = Inr c"
proof (cases "truthyF ts")
  case False
  then show ?thesis by (simp add: setCriteria_def Let_def)
next
  case True
  define c0 :: Criteria where "c0 = (if truthyF a then Map.empty(''address'' \<mapsto> a) else Map.empty)"
  obtain c1 where c1: "setTopic ''topic0'' ts 0 c0 = Inr c1"
    using setTopic_ok [OF True] by blast
  obtain c2 where c2: "setTopic ''topic1'' ts 1 c1 = Inr c2"
    using setTopic_ok [OF True] by blast
  obtain c3 where c3: "setTopic ''topic2'' ts 2 c2 = Inr c3"
    using setTopic_ok [OF True] by blast
  obtain c4 where c4: "setTopic ''topic3'' ts 3 c3 = Inr c4"
    using setTopic_ok [OF True] by blast
  have "setCriteria a ts = Inr c4"
    using True c1 c2 c3 c4 by (simp add: setCriteria_def Let_def c0_def bindE_Inr)
  then show ?thesis by blast
qed

lemma iteration_unfold:
  "\<exists>a t. (if isArray (address args) then index (address args) i = Inr a
          else a = (if truthyF (address args) then address args else FUndefined)) \<and>
         (if truthyF (topics args) then index (topics args) i = Inr t else t = FUndefined) \<and>
         iteration args i = setCriteria a t"
proof -
  have "\<exists>a. (if truthyF (address args)
            then (if isArray (address args) then index (address args) i
                  else Inr (address args))
            else Inr FUndefined) = Inr a"
    using index_truthy [of "address args" i] by simp
  then obtain a where a: "(if truthyF (address args)
            then (if isArray (address args) then index (address args) i
                  else Inr (address args))
            else Inr FUndefined) = Inr a"
    by blast
  have "\<exists>t. (if truthyF (topics args) then index (topics args) i else Inr FUndefined) = Inr t"
    using index_truthy [of "topics args" i] by simp
  then obtain t where t: "(if truthyF (topics args) then index (topics args) i else Inr FUndefined) = Inr t"
    by blast
  have arr: "isArray v \<Longrightarrow> truthyF v" for v
    by (cases v) simp_all
  have "iteration args i = setCriteria a t"
    by (simp add: iteration_def a t bindE_Inr)
  moreover have "if isArray (address args) then index (address args) i = Inr a
          else a = (if truthyF (address args) then address args else FUndefined)"
    using a arr [of "address args"] by (auto split: if_splits)
  moreover have "if truthyF (topics args) then index (topics args) i = Inr t else t = FUndefined"
    using t by (auto split: if_splits)
  ultimately show ?thesis by blast
qed

lemma iteration_ok: "\<exists>c. iteration args i = Inr c"
  using iteration_unfold [of args i] setCriteria_ok by metis

lemma forLoop_result:
  "\<exists>cs. forLoop args len i ret = Inr (ret @ cs) \<and> length cs = len - i \<and>
        (\<forall>j<len - i. iteration args (i + j) = Inr (cs ! j))"
proof (induction args len i ret rule: forLoop.induct)
  case (1 args len i ret)
  show ?case
  proof (cases "i < len")
    case False
    then show ?thesis by simp
  next
    case True
    obtain c where c: "iteration args i = Inr c"
      using iteration_ok by blast
    from "1.IH" [OF True c] obtain cs where
      cs: "forLoop args len (Suc i) (ret @ [c]) = Inr ((ret @ [c]) @ cs)"
        "length cs = len - Suc i"
        "\<forall>j<len - Suc i. iteration args (Suc i + j) = Inr (cs ! j)"
      by blast
    have "forLoop args len i ret = Inr (ret @ (c # cs))"
      using True c cs(1) by simp
    moreover have "length (c # cs) = len - i"
      using True cs(2) by simp
    moreover have "\<forall>j<len - i. iteration args (i + j) = Inr ((c # cs) ! j)"
    proof (intro allI impI)
      fix j assume j: "j < len - i"
      show "iteration args (i + j) = Inr ((c # cs) ! j)"
      proof (cases j)
        case 0
        then show ?thesis using c by simp
      next
        case (Suc k)
        then have "k < len - Suc i" using j by simp
        with cs(3) have "iteration args (Suc i + k) = Inr (cs ! k)" by blast
        then show ?thesis using Suc by simp
      qed
    qed
    ultimately show ?thesis by blast
  qed
qed

lemma isArray_truthyF: "isArray v \<Longrightarrow> truthyF v"
  by (cases v) simp_all

lemma lengthOf_truthy: "truthyF v \<Longrightarrow> \<exists>n. lengthOf v = Inr n"
  by (cases v) simp_all

lemma toFilterCriteria_seq:
  assumes "isArray (address args) \<or> (\<exists>xs rest. topics args = FArr (FArr xs # rest))"
  shows "\<exists>len. lengthOf (if truthyF (topics args) then topics args else address args) = Inr len \<and>
           toFilterCriteria args = forLoop args len 0 []"
proof -
  have scalar: "(if \<not> (truthyF (address args) \<and> isArray (address args))
            then (if truthyF (topics args)
                  then bindE (index (topics args) 0) (\<lambda>t0. Inr (\<not> (truthyF t0 \<and> isArray t0)))
                  else Inr True)
            else Inr False) = Inr False"
    using assms by (auto simp: isArray_truthyF bindE_Inr)
  have arr: "isArray (address args) \<or> isArray (topics args)"
    using assms by auto
  show ?thesis
  proof (cases "truthyF (topics args)")
    case True
    then obtain n where n: "lengthOf (topics args) = Inr n"
      using lengthOf_truthy by blast
    have "toFilterCriteria args = forLoop args n 0 []"
    proof (cases "truthyF (address args)")
      case False
      then show ?thesis
        unfolding toFilterCriteria_def scalar using arr True n by (simp add: bindE_Inr)
    next
      case ta: True
      then obtain m where m: "lengthOf (address args) = Inr m"
        using lengthOf_truthy by blast
      show ?thesis
        unfolding toFilterCriteria_def scalar using arr True ta n m by (simp add: bindE_Inr)
    qed
    with True n show ?thesis by simp
  next
    case False
    then have a: "isArray (address args)"
      using assms by auto
    then obtain m where m: "lengthOf (address args) = Inr m"
      using lengthOf_truthy isArray_truthyF by blast
    have "toFilterCriteria args = forLoop args m 0 []"
      unfolding toFilterCriteria_def scalar using a False m isArray_truthyF [OF a]
      by (simp add: bindE_Inr)
    with False m show ?thesis by simp
  qed
qed

text \<open>
  C4: in the sequence branch of \<open>toFilterCriteria\<close> (\<open>address\<close> is a sequence or
  \<open>topics[0]\<close> is a sequence) the call returns a list whose length is \<open>topics.length\<close>
  whenever \<open>topics\<close> is present (an array is always truthy), and \<open>address.length\<close>
  otherwise; its entry \<open>i\<close> is the criteria object built from \<open>address[i]\<close> (or from the
  scalar \<open>address\<close>, the same at every index) and \<open>topics[i]\<close>.
\<close>

theorem toFilterCriteria_sequence:
  assumes "isArray (address args) \<or> (\<exists>xs rest. topics args = FArr (FArr xs # rest))"
  shows "\<exists>cs. toFilterCriteria args = Inr cs \<and>
          lengthOf (if truthyF (topics args) then topics args else address args)
            = Inr (length cs) \<and>
          (\<forall>i<length cs. \<exists>a t.
             (if isArray (address args) then index (address args) i = Inr a
              else a = (if truthyF (address args) then address args else FUndefined)) \<and>
             (if truthyF (topics args) then index (topics args) i = Inr t else t = FUndefined) \<and>
             setCriteria a t = Inr (cs ! i))"
proof -
  obtain len where len:
    "lengthOf (if truthyF (topics args) then topics args else address args) = Inr len"
    "toFilterCriteria args = forLoop args len 0 []"
    using toFilterCriteria_seq [OF assms] by blast
  obtain cs where cs: "forLoop args len 0 [] = Inr ([] @ cs)" "length cs = len - 0"
    "\<forall>j<len - 0. iteration args (0 + j) = Inr (cs ! j)"
    using forLoop_result [of args len 0 "[]"] by blast
  have "\<exists>a t.
         (if isArray (address args) then index (address args) i = Inr a
          else a = (if truthyF (address args) then address args else FUndefined)) \<and>
         (if truthyF (topics args) then index (topics args) i = Inr t else t = FUndefined) \<and>
         setCriteria a t = Inr (cs ! i)" if "i < length cs" for i
  proof -
    have "iteration args i = Inr (cs ! i)"
      using that cs(2,3) by simp
    with iteration_unfold [of args i] show ?thesis
      by metis
  qed
  with len cs(1,2) show ?thesis
    by auto
qed

theorem toFilterCriteria_sequence_witness:
  "toFilterCriteria \<lparr>address = FArr [FStr ''0xA'', FStr ''0xB''],
                     topics = FArr [FArr [FStr ''t1''], FArr [FStr ''t2'']]\<rparr> =
     Inr [[''address'' \<mapsto> FStr ''0xA'', ''topic0'' \<mapsto> FStr ''t1''],
          [''address'' \<mapsto> FStr ''0xB'', ''topic0'' \<mapsto> FStr ''t2'']]"
proof -
  let ?args = "\<lparr>address = FArr [FStr ''0xA'', FStr ''0xB''],
                topics = FArr [FArr [FStr ''t1''], FArr [FStr ''t2'']]\<rparr>"
  have hyp: "isArray (address ?args) \<or> (\<exists>xs rest. topics ?args = FArr (FArr xs # rest))"
    by simp
  obtain cs where cs: "toFilterCriteria ?args = Inr cs"
    "lengthOf (if truthyF (topics ?args) then topics ?args else address ?args) = Inr (length cs)"
    "\<forall>i<length cs. \<exists>a t.
             (if isArray (address ?args) then index (address ?args) i = Inr a
              else a = (if truthyF (address ?args) then address ?args else FUndefined)) \<and>
             (if truthyF (topics ?args) then index (topics ?args) i = Inr t else t = FUndefined) \<and>
             setCriteria a t = Inr (cs ! i)"
    using toFilterCriteria_sequence [OF hyp] by blast
  have l: "length cs = 2"
    using cs(2) by simp
  have c0: "cs ! 0 = [''address'' \<mapsto> FStr ''0xA'', ''topic0'' \<mapsto> FStr ''t1'']"
    using cs(3) [rule_format, of 0] l
    by (auto simp: setCriteria_def setTopic_def Let_def bindE_Inr)
  have c1: "cs ! 1 = [''address'' \<mapsto> FStr ''0xB'', ''topic0'' \<mapsto> FStr ''t2'']"
    using cs(3) [rule_format, of 1] l
    by (auto simp: setCriteria_def setTopic_def Let_def bindE_Inr)
  have "cs = [cs ! 0, cs ! 1]"
    using l by (cases cs; cases "tl cs") auto
  with c0 c1 cs(1) show ?thesis
    by simp
qed

text \<open>
  C8: with both \<open>address\<close> and \<open>topics\<close> absent, \<open>toFilterCriteria\<close> returns a list
  holding exactly one empty criteria object; in the sequence branch, when the governing
  sequence has length 0, it returns the empty list.
\<close>

theorem toFilterCriteria_edge_cases:
  "(address args = FUndefined \<and> topics args = FUndefined \<longrightarrow>
      toFilterCriteria args = Inr [Map.empty]) \<and>
   ((isArray (address args) \<or> (\<exists>xs rest. topics args = FArr (FArr xs # rest))) \<and>
    lengthOf (if truthyF (topics args) then topics args else address args) = Inr 0 \<longrightarrow>
      toFilterCriteria args = Inr [])"
proof (intro conjI impI)
  assume "address args = FUndefined \<and> topics args = FUndefined"
  then show "toFilterCriteria args = Inr [Map.empty]"
    by (simp add: toFilterCriteria_def setCriteria_def Let_def bindE_Inr)
next
  assume h: "(isArray (address args) \<or> (\<exists>xs rest. topics args = FArr (FArr xs # rest))) \<and>
    lengthOf (if truthyF (topics args) then topics args else address args) = Inr 0"
  then obtain len where
    "lengthOf (if truthyF (topics args) then topics args else address args) = Inr len"
    "toFilterCriteria args = forLoop args len 0 []"
    using toFilterCriteria_seq [of args] by blast
  with h show "toFilterCriteria args = Inr []"
    by simp
qed

theorem toFilterCriteria_edge_cases_witness:
  "toFilterCriteria \<lparr>address = FUndefined, topics = FUndefined\<rparr> = Inr [Map.empty] \<and>
   toFilterCriteria \<lparr>address = FArr [], topics = FUndefined\<rparr> = Inr [] \<and>
   toFilterCriteria \<lparr>address = FArr [FStr ''0xA''], topics = FArr []\<rparr> = Inr []"
  using toFilterCriteria_edge_cases [of "\<lparr>address = FUndefined, topics = FUndefined\<rparr>"]
    toFilterCriteria_edge_cases [of "\<lparr>address = FArr [], topics = FUndefined\<rparr>"]
    toFilterCriteria_edge_cases [of "\<lparr>address = FArr [FStr ''0xA''], topics = FArr []\<rparr>"]
  by simp


section \<open>Properties of signTransaction\<close>

lemma signWithGas_log:
  "fst (signWithGas tc rnd ethTx wallet provider g log) = log @ [getBlockRequest]"
  by (simp add: signWithGas_def Let_def split: sum.splits)

lemma signWithGas_success:
  assumes "snd (signWithGas tc rnd ethTx wallet provider g log) = Inr raw"
  shows "\<exists>ref h sg enc.
           let body = txBody (provider_chainTag provider) ref (txClauses ethTx) g rnd
           in gas body = g \<and> signingHash tc body = Inr h \<and> hd (list wallet) h = Inr sg \<and>
              encode tc body sg = Inr enc \<and> raw = ''0x'' @ toHexString enc"
proof -
  have g: "gas (txBody c r cl g rnd) = g" for c r cl
    by (simp add: txBody_def)
  show ?thesis
    using assms unfolding signWithGas_def Let_def
    by (auto simp: g split: sum.splits list.splits)
qed

lemma gas_txBody: "gas (txBody c r cl g rnd) = g"
  by (simp add: txBody_def)

lemma signWithGas_returns:
  assumes "list wallet \<noteq> []"
    and "provider_request provider getBlockRequest = Inr best"
    and "bindE (getProperty best ''hash'') slice_0_18 = Inr ref"
    and "signingHash tc (txBody (provider_chainTag provider) ref (txClauses ethTx) g rnd) = Inr h"
    and "hd (list wallet) h = Inr sg"
    and "encode tc (txBody (provider_chainTag provider) ref (txClauses ethTx) g rnd) sg = Inr enc"
  shows "signWithGas tc rnd ethTx wallet provider g log =
           (log @ [getBlockRequest], Inr (''0x'' @ toHexString enc))"
  using assms by (cases "list wallet") (simp_all add: signWithGas_def Let_def)

text \<open>
  C5: for every wallet whose list of signers is empty, \<open>signTransaction\<close> rejects with
  exactly the bare string \<open>Empty wallet\<close>, whatever the transaction object and the
  provider are, and issues no provider request.
\<close>

theorem signTransaction_empty_wallet:
  "list wallet = [] \<Longrightarrow>
     signTransaction tc rnd ethTx wallet provider = ([], Inl (Reason (JStr ''Empty wallet'')))"
  by (simp add: signTransaction_def)

theorem signTransaction_empty_wallet_witness:
  "signTransaction sampleCodec ''12345678'' (sampleTx JUndefined) \<lparr>list = []\<rparr> sampleProvider
     = ([], Inl (Reason (JStr ''Empty wallet'')))"
  using signTransaction_empty_wallet
    [of "\<lparr>list = []\<rparr>" sampleCodec "''12345678''" "sampleTx JUndefined" sampleProvider]
  by simp

text \<open>
  C9, as amended: in \<open>signTransaction\<close> with a wallet that is not empty, when \<open>gas\<close> is
  supplied and truthy, the only request issued is \<open>eth_getBlockByNumber\<close> (no
  \<open>eth_estimateGas\<close>), and the transaction body that is signed and encoded carries the
  supplied \<open>gas\<close>: when the block request, the signer and the codec succeed, the signed
  encoding of that body is returned, and nothing else is ever returned. When \<open>gas\<close> is
  absent or falsy, the first request issued is \<open>eth_estimateGas\<close> with the original
  transaction object as its parameter, and the body that is signed and encoded carries
  the value that request resolved to, in the same way.
\<close>

theorem signTransaction_gas:
  assumes "list wallet \<noteq> []"
  shows "(truthy (tx_gas ethTx) \<longrightarrow>
            fst (signTransaction tc rnd ethTx wallet provider) = [getBlockRequest] \<and>
            (\<forall>raw. snd (signTransaction tc rnd ethTx wallet provider) = Inr raw \<longrightarrow>
               (\<exists>ref h sg enc.
                  let body = txBody (provider_chainTag provider) ref (txClauses ethTx)
                               (tx_gas ethTx) rnd
                  in gas body = tx_gas ethTx \<and> signingHash tc body = Inr h \<and>
                     hd (list wallet) h = Inr sg \<and> encode tc body sg = Inr enc \<and>
                     raw = ''0x'' @ toHexString enc)) \<and>
            (let body = txBody (provider_chainTag provider) ref0 (txClauses ethTx)
                          (tx_gas ethTx) rnd
             in provider_request provider getBlockRequest = Inr best \<and>
                bindE (getProperty best ''hash'') slice_0_18 = Inr ref0 \<and>
                signingHash tc body = Inr h0 \<and> hd (list wallet) h0 = Inr sg0 \<and>
                encode tc body sg0 = Inr enc0 \<longrightarrow>
                  gas body = tx_gas ethTx \<and>
                  snd (signTransaction tc rnd ethTx wallet provider) =
                    Inr (''0x'' @ toHexString enc0))) \<and>
         (\<not> truthy (tx_gas ethTx) \<longrightarrow>
            (\<exists>rest. fst (signTransaction tc rnd ethTx wallet provider) =
                \<lparr>rpc_method = ''eth_estimateGas'', rpc_params = [TxParam ethTx]\<rparr> # rest) \<and>
            (\<forall>raw. snd (signTransaction tc rnd ethTx wallet provider) = Inr raw \<longrightarrow>
               (\<exists>g ref h sg enc.
                  provider_request provider
                    \<lparr>rpc_method = ''eth_estimateGas'', rpc_params = [TxParam ethTx]\<rparr> = Inr g \<and>
                  (let body = txBody (provider_chainTag provider) ref (txClauses ethTx) g rnd
                   in gas body = g \<and> signingHash tc body = Inr h \<and>
                      hd (list wallet) h = Inr sg \<and> encode tc body sg = Inr enc \<and>
                      raw = ''0x'' @ toHexString enc))) \<and>
            (let body = txBody (provider_chainTag provider) ref0 (txClauses ethTx) g0 rnd
             in provider_request provider
                  \<lparr>rpc_method = ''eth_estimateGas'', rpc_params = [TxParam ethTx]\<rparr> = Inr g0 \<and>
                provider_request provider getBlockRequest = Inr best \<and>
                bindE (getProperty best ''hash'') slice_0_18 = Inr ref0 \<and>
                signingHash tc body = Inr h0 \<and> hd (list wallet) h0 = Inr sg0 \<and>
                encode tc body sg0 = Inr enc0 \<longrightarrow>
                  gas body = g0 \<and>
                  signTransaction tc rnd ethTx wallet provider =
                    ([\<lparr>rpc_method = ''eth_estimateGas'', rpc_params = [TxParam ethTx]\<rparr>,
                      getBlockRequest],
                     Inr (''0x'' @ toHexString enc0))))"
proof (intro conjI impI)
  assume t: "truthy (tx_gas ethTx)"
  then have eq: "signTransaction tc rnd ethTx wallet provider =
      signWithGas tc rnd ethTx wallet provider (tx_gas ethTx) []"
    using assms by (simp add: signTransaction_def)
  show "fst (signTransaction tc rnd ethTx wallet provider) = [getBlockRequest]"
    by (simp add: eq signWithGas_log)
  show "\<forall>raw. snd (signTransaction tc rnd ethTx wallet provider) = Inr raw \<longrightarrow>
               (\<exists>ref h sg enc.
                  let body = txBody (provider_chainTag provider) ref (txClauses ethTx)
                               (tx_gas ethTx) rnd
                  in gas body = tx_gas ethTx \<and> signingHash tc body = Inr h \<and>
                     hd (list wallet) h = Inr sg \<and> encode tc body sg = Inr enc \<and>
                     raw = ''0x'' @ toHexString enc)"
    unfolding eq using signWithGas_success by blast
  show "let body = txBody (provider_chainTag provider) ref0 (txClauses ethTx)
                          (tx_gas ethTx) rnd
        in provider_request provider getBlockRequest = Inr best \<and>
           bindE (getProperty best ''hash'') slice_0_18 = Inr ref0 \<and>
           signingHash tc body = Inr h0 \<and> hd (list wallet) h0 = Inr sg0 \<and>
           encode tc body sg0 = Inr enc0 \<longrightarrow>
             gas body = tx_gas ethTx \<and>
             snd (signTransaction tc rnd ethTx wallet provider) =
               Inr (''0x'' @ toHexString enc0)"
    unfolding eq Let_def
    using signWithGas_returns [OF assms, of provider best ref0 tc ethTx "tx_gas ethTx" rnd]
    by (simp add: gas_txBody)
next
  let ?req = "\<lparr>rpc_method = ''eth_estimateGas'', rpc_params = [TxParam ethTx]\<rparr>"
  assume f: "\<not> truthy (tx_gas ethTx)"
  then have eq: "signTransaction tc rnd ethTx wallet provider =
      (case provider_request provider ?req of
         Inl r \<Rightarrow> ([?req], Inl (Reason r))
       | Inr g \<Rightarrow> signWithGas tc rnd ethTx wallet provider g [?req])"
    using assms by (simp add: signTransaction_def estimateGasRequest_def split: sum.splits)
  show "\<exists>rest. fst (signTransaction tc rnd ethTx wallet provider) = ?req # rest"
    by (simp add: eq signWithGas_log split: sum.splits)
  show "\<forall>raw. snd (signTransaction tc rnd ethTx wallet provider) = Inr raw \<longrightarrow>
               (\<exists>g ref h sg enc.
                  provider_request provider ?req = Inr g \<and>
                  (let body = txBody (provider_chainTag provider) ref (txClauses ethTx) g rnd
                   in gas body = g \<and> signingHash tc body = Inr h \<and>
                      hd (list wallet) h = Inr sg \<and> encode tc body sg = Inr enc \<and>
                      raw = ''0x'' @ toHexString enc))"
  proof (intro allI impI)
    fix raw
    assume r: "snd (signTransaction tc rnd ethTx wallet provider) = Inr raw"
    then obtain g where g: "provider_request provider ?req = Inr g"
      unfolding eq by (cases "provider_request provider ?req") auto
    with r have "snd (signWithGas tc rnd ethTx wallet provider g [?req]) = Inr raw"
      unfolding eq by simp
    from signWithGas_success [OF this] g show "\<exists>g ref h sg enc.
                  provider_request provider ?req = Inr g \<and>
                  (let body = txBody (provider_chainTag provider) ref (txClauses ethTx) g rnd
                   in gas body = g \<and> signingHash tc body = Inr h \<and>
                      hd (list wallet) h = Inr sg \<and> encode tc body sg = Inr enc \<and>
                      raw = ''0x'' @ toHexString enc)"
      by blast
  qed
  show "let body = txBody (provider_chainTag provider) ref0 (txClauses ethTx) g0 rnd
        in provider_request provider ?req = Inr g0 \<and>
           provider_request provider getBlockRequest = Inr best \<and>
           bindE (getProperty best ''hash'') slice_0_18 = Inr ref0 \<and>
           signingHash tc body = Inr h0 \<and> hd (list wallet) h0 = Inr sg0 \<and>
           encode tc body sg0 = Inr enc0 \<longrightarrow>
             gas body = g0 \<and>
             signTransaction tc rnd ethTx wallet provider =
               ([?req, getBlockRequest], Inr (''0x'' @ toHexString enc0))"
    unfolding eq Let_def
    using signWithGas_returns [OF assms, of provider best ref0 tc ethTx g0 rnd h0 sg0 enc0
        "[?req]"]
    by (auto simp: gas_txBody)
qed

theorem signTransaction_gas_witness:
  "signTransaction sampleCodec ''12345678'' (sampleTx (JStr ''0x7530'')) sampleWallet
      sampleProvider =
     ([getBlockRequest], Inr (''0x'' @ toHexString ''0x7530signed digest'')) \<and>
   signTransaction sampleCodec ''12345678'' (sampleTx JUndefined) sampleWallet sampleProvider =
     ([estimateGasRequest (sampleTx JUndefined), getBlockRequest],
      Inr (''0x'' @ toHexString ''0x5208signed digest''))"
proof -
  let ?best = "JObj [(''hash'',
      Inr (JStr ''0x00000001c458949985a6d86b7139690b8811dd3b4647c02d4f41cdefb7d32327''))]"
  let ?ref = "JStr ''0x00000001c4589499''"
  have w: "list sampleWallet \<noteq> []"
    by (simp add: sampleWallet_def)
  have a: "truthy (tx_gas (sampleTx (JStr ''0x7530'')))"
    by (simp add: sampleTx_def)
  have b: "\<not> truthy (tx_gas (sampleTx JUndefined))"
    by (simp add: sampleTx_def)
  have blk: "provider_request sampleProvider getBlockRequest = Inr ?best"
    by (simp add: sampleProvider_def getBlockRequest_def)
  have est: "provider_request sampleProvider
      \<lparr>rpc_method = ''eth_estimateGas'', rpc_params = [TxParam (sampleTx JUndefined)]\<rparr>
      = Inr (JStr ''0x5208'')"
    by (simp add: sampleProvider_def)
  have ref: "bindE (getProperty ?best ''hash'') slice_0_18 = Inr ?ref"
    by (simp add: bindE_def)
  have sh: "signingHash sampleCodec body = Inr ''digest''" for body
    by (simp add: sampleCodec_def)
  have sg: "hd (list sampleWallet) ''digest'' = Inr ''signed digest''"
    by (simp add: sampleWallet_def)
  have enc: "encode sampleCodec (txBody c r cl (JStr g) rnd) ''signed digest''
      = Inr (g @ ''signed digest'')" for c r cl g rnd
    by (simp add: sampleCodec_def txBody_def)
  note yes = signTransaction_gas [OF w, of "sampleTx (JStr ''0x7530'')" sampleCodec
      "''12345678''" sampleProvider ?ref ?best "''digest''" "''signed digest''"
      "''0x7530signed digest''", THEN conjunct1, rule_format, OF a]
  have one_log: "fst (signTransaction sampleCodec ''12345678'' (sampleTx (JStr ''0x7530''))
      sampleWallet sampleProvider) = [getBlockRequest]"
    using yes [THEN conjunct1] .
  have g1: "tx_gas (sampleTx (JStr ''0x7530'')) = JStr ''0x7530''"
    by (simp add: sampleTx_def)
  have one_tx: "snd (signTransaction sampleCodec ''12345678'' (sampleTx (JStr ''0x7530''))
      sampleWallet sampleProvider) = Inr (''0x'' @ toHexString ''0x7530signed digest'')"
    using yes [THEN conjunct2, THEN conjunct2, unfolded Let_def g1] blk ref sh sg
      enc [of _ _ _ "''0x7530''"]
    by simp
  have one: "signTransaction sampleCodec ''12345678'' (sampleTx (JStr ''0x7530'')) sampleWallet
      sampleProvider = ([getBlockRequest], Inr (''0x'' @ toHexString ''0x7530signed digest''))"
    using one_log one_tx by (simp add: prod_eq_iff)
  note no = signTransaction_gas [OF w, of "sampleTx JUndefined" sampleCodec "''12345678''"
      sampleProvider ?ref ?best "''digest''" "''signed digest''" "''0x5208signed digest''"
      "JStr ''0x5208''", THEN conjunct2, rule_format, OF b]
  have two: "signTransaction sampleCodec ''12345678'' (sampleTx JUndefined) sampleWallet
      sampleProvider = ([estimateGasRequest (sampleTx JUndefined), getBlockRequest],
      Inr (''0x'' @ toHexString ''0x5208signed digest''))"
    using no [THEN conjunct2, THEN conjunct2, unfolded Let_def] blk est ref sh sg
      enc [of _ _ _ "''0x5208''"]
    by (simp add: estimateGasRequest_def)
  from one two show ?thesis
    by simp
qed

text \<open>
  C9, as stated, fails: a \<open>gas\<close> that is supplied but falsy (here the number 0) is not
  used, and \<open>eth_estimateGas\<close> is requested; and with an empty wallet no request is
  issued at all, also when \<open>gas\<close> is not supplied.
\<close>

theorem signTransaction_gas_counterexample:
  "fst (signTransaction sampleCodec ''12345678'' (sampleTx (JNum 0)) sampleWallet sampleProvider)
     = [estimateGasRequest (sampleTx (JNum 0)), getBlockRequest] \<and>
   fst (signTransaction sampleCodec ''12345678'' (sampleTx JUndefined) \<lparr>list = []\<rparr> sampleProvider)
     = []"
  by (simp add: signTransaction_def signWithGas_log sampleProvider_def sampleWallet_def
      sampleTx_def estimateGasRequest_def split: sum.splits)

end
